theory Spec2Isabelle
  imports Main "HOL-Library.AList"
begin

section \<open>Identity of Kubernetes objects\<close>

text \<open>
  \<^verbatim>\<open>schema.GroupVersionKind\<close> and \<^verbatim>\<open>schema.GroupKind\<close> are structs of strings. Go
  strings are byte sequences, modelled as \<^typ>\<open>string\<close>.
\<close>

record GroupVersionKind =
  gvk_Group :: string
  gvk_Version :: string
  gvk_Kind :: string

record GroupKind =
  gk_Group :: string
  gk_Kind :: string

text \<open>
  The typed Gateway API and core resources (\<^verbatim>\<open>*gwapiv1.Gateway\<close>,
  \<^verbatim>\<open>*gwapiv1.HTTPRoute\<close>, \<^verbatim>\<open>*core.Service\<close>, ...) are external types. The wrappers
  only read their \<^verbatim>\<open>TypeMeta\<close> (through \<^verbatim>\<open>GroupVersionKind()\<close>) and the namespace
  and name of their \<^verbatim>\<open>ObjectMeta\<close>.
\<close>

record Resource =
  res_TypeMeta :: GroupVersionKind
  res_Namespace :: string
  res_Name :: string

text \<open>
  What the \<^verbatim>\<open>Object\<close> interface lets a caller observe of a value:
  \<^verbatim>\<open>GroupVersionKind()\<close>, \<^verbatim>\<open>GetNamespace()\<close> and \<^verbatim>\<open>GetName()\<close>.
\<close>

record Object =
  obj_GroupVersionKind :: GroupVersionKind
  obj_GetNamespace :: string
  obj_GetName :: string

text \<open>
  \<^verbatim>\<open>UrlFromObject\<close> is called by every \<^verbatim>\<open>GetURL\<close> and is declared outside the
  files modelled here. It receives a value through the \<^verbatim>\<open>Object\<close> interface, so
  it is a parameter \<open>U\<close> of type \<^typ>\<open>Object \<Rightarrow> string\<close> of every function that
  calls it.
\<close>

type_synonym UrlFromObject = "Object \<Rightarrow> string"

definition nameSectionNameURLSeparator :: char where
  "nameSectionNameURLSeparator = CHR ''#''"

text \<open>
  \<^verbatim>\<open>fmt.Sprintf("%s%s%s", namespace, string(nameSectionNameURLSeparator), sectionName)\<close>:
  the three strings one after the other.
\<close>

definition namespacedSectionName :: "string \<Rightarrow> string \<Rightarrow> string" where
  "namespacedSectionName namespace sectionName =
     namespace @ [nameSectionNameURLSeparator] @ sectionName"

section \<open>Policy target references\<close>

text \<open>
  The three reference types embed the Gateway API struct of the same name and add
  \<^verbatim>\<open>PolicyNamespace\<close>. The embedded fields are promoted, so each record lists them
  directly. A Go pointer field (\<^verbatim>\<open>*Namespace\<close>, \<^verbatim>\<open>*SectionName\<close>) is an
  \<^typ>\<open>string option\<close>, \<open>None\<close> for \<^verbatim>\<open>nil\<close>.
\<close>

record NamespacedPolicyTargetReference =
  npr_Group :: string
  npr_Kind :: string
  npr_Name :: string
  npr_Namespace :: "string option"
  npr_PolicyNamespace :: string

record LocalPolicyTargetReference =
  lpr_Group :: string
  lpr_Kind :: string
  lpr_Name :: string
  lpr_PolicyNamespace :: string

record LocalPolicyTargetReferenceWithSectionName =
  lsr_Group :: string
  lsr_Kind :: string
  lsr_Name :: string
  lsr_SectionName :: "string option"
  lsr_PolicyNamespace :: string

subsection \<open>NamespacedPolicyTargetReference\<close>

definition NamespacedPolicyTargetReference_GroupVersionKind ::
  "NamespacedPolicyTargetReference \<Rightarrow> GroupVersionKind" where
  "NamespacedPolicyTargetReference_GroupVersionKind t =
     \<lparr>gvk_Group = npr_Group t, gvk_Version = [], gvk_Kind = npr_Kind t\<rparr>"

text \<open>
  \<^verbatim>\<open>SetGroupVersionKind\<close> has a value receiver: the body assigns to the fields of
  the callee's copy of \<open>t\<close>, and the copy is dropped when the method returns. The
  function \<open>_body\<close> is the copy after the two assignments; the function without suffix is
  the caller's value after the call.
\<close>

definition NamespacedPolicyTargetReference_SetGroupVersionKind_body ::
  "NamespacedPolicyTargetReference \<Rightarrow> GroupVersionKind \<Rightarrow> NamespacedPolicyTargetReference" where
  "NamespacedPolicyTargetReference_SetGroupVersionKind_body t gvk =
     t\<lparr>npr_Group := gvk_Group gvk, npr_Kind := gvk_Kind gvk\<rparr>"

definition NamespacedPolicyTargetReference_SetGroupVersionKind ::
  "NamespacedPolicyTargetReference \<Rightarrow> GroupVersionKind \<Rightarrow> NamespacedPolicyTargetReference" where
  "NamespacedPolicyTargetReference_SetGroupVersionKind t gvk =
     (let t_copy = NamespacedPolicyTargetReference_SetGroupVersionKind_body t gvk in t)"

text \<open>\<^verbatim>\<open>ptr.Deref(p, def)\<close>: the pointee, or \<open>def\<close> when the pointer is nil.\<close>

definition Deref :: "'a option \<Rightarrow> 'a \<Rightarrow> 'a" where
  "Deref p def = (case p of None \<Rightarrow> def | Some v \<Rightarrow> v)"

definition NamespacedPolicyTargetReference_GetNamespace ::
  "NamespacedPolicyTargetReference \<Rightarrow> string" where
  "NamespacedPolicyTargetReference_GetNamespace t = Deref (npr_Namespace t) (npr_PolicyNamespace t)"

definition NamespacedPolicyTargetReference_GetName ::
  "NamespacedPolicyTargetReference \<Rightarrow> string" where
  "NamespacedPolicyTargetReference_GetName t = npr_Name t"

definition NamespacedPolicyTargetReference_Object ::
  "NamespacedPolicyTargetReference \<Rightarrow> Object" where
  "NamespacedPolicyTargetReference_Object t =
     \<lparr>obj_GroupVersionKind = NamespacedPolicyTargetReference_GroupVersionKind t,
      obj_GetNamespace = NamespacedPolicyTargetReference_GetNamespace t,
      obj_GetName = NamespacedPolicyTargetReference_GetName t\<rparr>"

definition NamespacedPolicyTargetReference_GetURL ::
  "UrlFromObject \<Rightarrow> NamespacedPolicyTargetReference \<Rightarrow> string" where
  "NamespacedPolicyTargetReference_GetURL U t = U (NamespacedPolicyTargetReference_Object t)"

subsection \<open>LocalPolicyTargetReference\<close>

definition LocalPolicyTargetReference_GroupVersionKind ::
  "LocalPolicyTargetReference \<Rightarrow> GroupVersionKind" where
  "LocalPolicyTargetReference_GroupVersionKind t =
     \<lparr>gvk_Group = lpr_Group t, gvk_Version = [], gvk_Kind = lpr_Kind t\<rparr>"

definition LocalPolicyTargetReference_SetGroupVersionKind_body ::
  "LocalPolicyTargetReference \<Rightarrow> GroupVersionKind \<Rightarrow> LocalPolicyTargetReference" where
  "LocalPolicyTargetReference_SetGroupVersionKind_body t gvk =
     t\<lparr>lpr_Group := gvk_Group gvk, lpr_Kind := gvk_Kind gvk\<rparr>"

definition LocalPolicyTargetReference_SetGroupVersionKind ::
  "LocalPolicyTargetReference \<Rightarrow> GroupVersionKind \<Rightarrow> LocalPolicyTargetReference" where
  "LocalPolicyTargetReference_SetGroupVersionKind t gvk =
     (let t_copy = LocalPolicyTargetReference_SetGroupVersionKind_body t gvk in t)"

definition LocalPolicyTargetReference_GetNamespace :: "LocalPolicyTargetReference \<Rightarrow> string" where
  "LocalPolicyTargetReference_GetNamespace t = lpr_PolicyNamespace t"

definition LocalPolicyTargetReference_GetName :: "LocalPolicyTargetReference \<Rightarrow> string" where
  "LocalPolicyTargetReference_GetName t = lpr_Name t"

definition LocalPolicyTargetReference_Object :: "LocalPolicyTargetReference \<Rightarrow> Object" where
  "LocalPolicyTargetReference_Object t =
     \<lparr>obj_GroupVersionKind = LocalPolicyTargetReference_GroupVersionKind t,
      obj_GetNamespace = LocalPolicyTargetReference_GetNamespace t,
      obj_GetName = LocalPolicyTargetReference_GetName t\<rparr>"

definition LocalPolicyTargetReference_GetURL ::
  "UrlFromObject \<Rightarrow> LocalPolicyTargetReference \<Rightarrow> string" where
  "LocalPolicyTargetReference_GetURL U t = U (LocalPolicyTargetReference_Object t)"

subsection \<open>LocalPolicyTargetReferenceWithSectionName\<close>

definition LocalPolicyTargetReferenceWithSectionName_GroupVersionKind ::
  "LocalPolicyTargetReferenceWithSectionName \<Rightarrow> GroupVersionKind" where
  "LocalPolicyTargetReferenceWithSectionName_GroupVersionKind t =
     \<lparr>gvk_Group = lsr_Group t, gvk_Version = [], gvk_Kind = lsr_Kind t\<rparr>"

definition LocalPolicyTargetReferenceWithSectionName_SetGroupVersionKind_body ::
  "LocalPolicyTargetReferenceWithSectionName \<Rightarrow> GroupVersionKind
     \<Rightarrow> LocalPolicyTargetReferenceWithSectionName" where
  "LocalPolicyTargetReferenceWithSectionName_SetGroupVersionKind_body t gvk =
     t\<lparr>lsr_Group := gvk_Group gvk, lsr_Kind := gvk_Kind gvk\<rparr>"

definition LocalPolicyTargetReferenceWithSectionName_SetGroupVersionKind ::
  "LocalPolicyTargetReferenceWithSectionName \<Rightarrow> GroupVersionKind
     \<Rightarrow> LocalPolicyTargetReferenceWithSectionName" where
  "LocalPolicyTargetReferenceWithSectionName_SetGroupVersionKind t gvk =
     (let t_copy = LocalPolicyTargetReferenceWithSectionName_SetGroupVersionKind_body t gvk in t)"

definition LocalPolicyTargetReferenceWithSectionName_GetNamespace ::
  "LocalPolicyTargetReferenceWithSectionName \<Rightarrow> string" where
  "LocalPolicyTargetReferenceWithSectionName_GetNamespace t = lsr_PolicyNamespace t"

definition LocalPolicyTargetReferenceWithSectionName_GetName ::
  "LocalPolicyTargetReferenceWithSectionName \<Rightarrow> string" where
  "LocalPolicyTargetReferenceWithSectionName_GetName t =
     (if lsr_SectionName t = None then lsr_Name t
      else namespacedSectionName (lsr_Name t) (the (lsr_SectionName t)))"

definition LocalPolicyTargetReferenceWithSectionName_Object ::
  "LocalPolicyTargetReferenceWithSectionName \<Rightarrow> Object" where
  "LocalPolicyTargetReferenceWithSectionName_Object t =
     \<lparr>obj_GroupVersionKind = LocalPolicyTargetReferenceWithSectionName_GroupVersionKind t,
      obj_GetNamespace = LocalPolicyTargetReferenceWithSectionName_GetNamespace t,
      obj_GetName = LocalPolicyTargetReferenceWithSectionName_GetName t\<rparr>"

definition LocalPolicyTargetReferenceWithSectionName_GetURL ::
  "UrlFromObject \<Rightarrow> LocalPolicyTargetReferenceWithSectionName \<Rightarrow> string" where
  "LocalPolicyTargetReferenceWithSectionName_GetURL U t =
     U (LocalPolicyTargetReferenceWithSectionName_Object t)"

section \<open>Policies\<close>

text \<open>
  An item of \<^verbatim>\<open>Spec.TargetRefs\<close> of a Gateway API \<^verbatim>\<open>BackendTLSPolicy\<close>
  (\<^verbatim>\<open>gwapiv1alpha2.LocalPolicyTargetReferenceWithSectionName\<close>), and the part of
  \<^verbatim>\<open>*gwapiv1alpha3.BackendTLSPolicy\<close> that the wrapper reads.
\<close>

record TargetRef =
  tr_Group :: string
  tr_Kind :: string
  tr_Name :: string
  tr_SectionName :: "string option"

record BackendTLSPolicy =
  btp_TypeMeta :: GroupVersionKind
  btp_Namespace :: string
  btp_Name :: string
  btp_TargetRefs :: "TargetRef list"

text \<open>
  A value of the interface type \<^verbatim>\<open>Policy\<close> carries its dynamic type. The files
  modelled here declare one implementation, \<^verbatim>\<open>*BackendTLSPolicy\<close>; \<open>OtherPolicy\<close> stands for a
  value of any other policy type (named by the first argument), \<open>nil_Policy\<close> for the
  nil interface value.
\<close>

datatype Policy =
    BackendTLSPolicy_ptr BackendTLSPolicy
  | OtherPolicy string Resource
  | nil_Policy

type_synonym MergeStrategy = "Policy \<Rightarrow> Policy \<Rightarrow> Policy"

definition BackendTLSPolicy_Object :: "BackendTLSPolicy \<Rightarrow> Object" where
  "BackendTLSPolicy_Object p =
     \<lparr>obj_GroupVersionKind = btp_TypeMeta p, obj_GetNamespace = btp_Namespace p,
      obj_GetName = btp_Name p\<rparr>"

definition BackendTLSPolicy_GetURL :: "UrlFromObject \<Rightarrow> BackendTLSPolicy \<Rightarrow> string" where
  "BackendTLSPolicy_GetURL U p = U (BackendTLSPolicy_Object p)"

definition BackendTLSPolicy_GetTargetRefs ::
  "BackendTLSPolicy \<Rightarrow> LocalPolicyTargetReferenceWithSectionName list" where
  "BackendTLSPolicy_GetTargetRefs p =
     map (\<lambda>item. \<lparr>lsr_Group = tr_Group item, lsr_Kind = tr_Kind item, lsr_Name = tr_Name item,
                   lsr_SectionName = tr_SectionName item, lsr_PolicyNamespace = btp_Namespace p\<rparr>)
       (btp_TargetRefs p)"

text \<open>
  \<^verbatim>\<open>DefaultMergeStrategy\<close> is declared outside the files modelled here; it is the
  parameter \<open>D\<close> of the two methods that mention it.
\<close>

definition BackendTLSPolicy_GetMergeStrategy :: "MergeStrategy \<Rightarrow> BackendTLSPolicy \<Rightarrow> MergeStrategy" where
  "BackendTLSPolicy_GetMergeStrategy D p = D"

text \<open>
  \<^verbatim>\<open>source, ok := other.(*BackendTLSPolicy)\<close> succeeds exactly on a value whose
  dynamic type is \<^verbatim>\<open>*BackendTLSPolicy\<close>.
\<close>

definition BackendTLSPolicy_Merge :: "MergeStrategy \<Rightarrow> BackendTLSPolicy \<Rightarrow> Policy \<Rightarrow> Policy" where
  "BackendTLSPolicy_Merge D p other =
     (case other of
        BackendTLSPolicy_ptr source \<Rightarrow>
          (BackendTLSPolicy_GetMergeStrategy D source) (BackendTLSPolicy_ptr source)
            (BackendTLSPolicy_ptr p)
      | _ \<Rightarrow> BackendTLSPolicy_ptr p)"

section \<open>Targetables\<close>

text \<open>
  A wrapper embeds a pointer to the typed resource and keeps the attached policies.
  \<^verbatim>\<open>GroupVersionKind()\<close>, \<^verbatim>\<open>GetNamespace()\<close> and \<^verbatim>\<open>GetName()\<close> of
  \<^verbatim>\<open>Gateway\<close>, \<^verbatim>\<open>HTTPRoute\<close> and \<^verbatim>\<open>Service\<close> are promoted from the embedded
  resource. The embedded pointer and the parent pointer of an expanded node are taken
  to be non-nil, as they are in every node that the expansion creates.
\<close>

record Gateway =
  gw_Gateway :: Resource
  gw_attachedPolicies :: "Policy list"

record HTTPRoute =
  hr_HTTPRoute :: Resource
  hr_attachedPolicies :: "Policy list"

record Service =
  svc_Service :: Resource
  svc_attachedPolicies :: "Policy list"

definition Resource_Object :: "Resource \<Rightarrow> Object" where
  "Resource_Object r =
     \<lparr>obj_GroupVersionKind = res_TypeMeta r, obj_GetNamespace = res_Namespace r,
      obj_GetName = res_Name r\<rparr>"

definition Gateway_Object :: "Gateway \<Rightarrow> Object" where
  "Gateway_Object g = Resource_Object (gw_Gateway g)"

definition Gateway_GetURL :: "UrlFromObject \<Rightarrow> Gateway \<Rightarrow> string" where
  "Gateway_GetURL U g = U (Gateway_Object g)"

definition Gateway_SetPolicies :: "Gateway \<Rightarrow> Policy list \<Rightarrow> Gateway" where
  "Gateway_SetPolicies g policies = g\<lparr>gw_attachedPolicies := policies\<rparr>"

definition Gateway_Policies :: "Gateway \<Rightarrow> Policy list" where
  "Gateway_Policies g = gw_attachedPolicies g"

definition HTTPRoute_Object :: "HTTPRoute \<Rightarrow> Object" where
  "HTTPRoute_Object r = Resource_Object (hr_HTTPRoute r)"

definition HTTPRoute_GetURL :: "UrlFromObject \<Rightarrow> HTTPRoute \<Rightarrow> string" where
  "HTTPRoute_GetURL U r = U (HTTPRoute_Object r)"

definition HTTPRoute_SetPolicies :: "HTTPRoute \<Rightarrow> Policy list \<Rightarrow> HTTPRoute" where
  "HTTPRoute_SetPolicies r policies = r\<lparr>hr_attachedPolicies := policies\<rparr>"

definition HTTPRoute_Policies :: "HTTPRoute \<Rightarrow> Policy list" where
  "HTTPRoute_Policies r = hr_attachedPolicies r"

definition Service_Object :: "Service \<Rightarrow> Object" where
  "Service_Object s = Resource_Object (svc_Service s)"

definition Service_GetURL :: "UrlFromObject \<Rightarrow> Service \<Rightarrow> string" where
  "Service_GetURL U s = U (Service_Object s)"

definition Service_SetPolicies :: "Service \<Rightarrow> Policy list \<Rightarrow> Service" where
  "Service_SetPolicies s policies = s\<lparr>svc_attachedPolicies := policies\<rparr>"

definition Service_Policies :: "Service \<Rightarrow> Policy list" where
  "Service_Policies s = svc_attachedPolicies s"

subsection \<open>Expanded sub-resources\<close>

text \<open>
  \<open>lis_Name\<close> is the \<^verbatim>\<open>Name\<close> of the embedded \<^verbatim>\<open>*gwapiv1.Listener\<close>, \<open>sp_Name\<close>
  the \<^verbatim>\<open>Name\<close> of the embedded \<^verbatim>\<open>*core.ServicePort\<close>; \<open>hrr_Name\<close> is the
  wrapper's own field.
\<close>

record Listener =
  lis_Name :: string
  lis_Gateway :: Gateway
  lis_attachedPolicies :: "Policy list"

record HTTPRouteRule =
  hrr_HTTPRoute :: HTTPRoute
  hrr_Name :: string
  hrr_attachedPolicies :: "Policy list"

record ServicePort =
  sp_Name :: string
  sp_Service :: Service
  sp_attachedPolicies :: "Policy list"

definition gwapiv1_GroupName :: string where
  "gwapiv1_GroupName = ''gateway.networking.k8s.io''"

definition gwapiv1_GroupVersion_Version :: string where
  "gwapiv1_GroupVersion_Version = ''v1''"

definition Listener_GroupVersionKind :: "Listener \<Rightarrow> GroupVersionKind" where
  "Listener_GroupVersionKind l =
     \<lparr>gvk_Group = gwapiv1_GroupName, gvk_Version = gwapiv1_GroupVersion_Version,
      gvk_Kind = ''Listener''\<rparr>"

definition Listener_GetURL :: "UrlFromObject \<Rightarrow> Listener \<Rightarrow> string" where
  "Listener_GetURL U l = namespacedSectionName (U (Gateway_Object (lis_Gateway l))) (lis_Name l)"

definition Listener_GetNamespace :: "Listener \<Rightarrow> string" where
  "Listener_GetNamespace l = obj_GetNamespace (Gateway_Object (lis_Gateway l))"

definition Listener_GetName :: "Listener \<Rightarrow> string" where
  "Listener_GetName l =
     namespacedSectionName (obj_GetName (Gateway_Object (lis_Gateway l))) (lis_Name l)"

definition HTTPRouteRule_GroupVersionKind :: "HTTPRouteRule \<Rightarrow> GroupVersionKind" where
  "HTTPRouteRule_GroupVersionKind r =
     \<lparr>gvk_Group = gwapiv1_GroupName, gvk_Version = gwapiv1_GroupVersion_Version,
      gvk_Kind = ''HTTPRouteRule''\<rparr>"

definition HTTPRouteRule_GetURL :: "UrlFromObject \<Rightarrow> HTTPRouteRule \<Rightarrow> string" where
  "HTTPRouteRule_GetURL U r =
     namespacedSectionName (U (HTTPRoute_Object (hrr_HTTPRoute r))) (hrr_Name r)"

definition HTTPRouteRule_GetNamespace :: "HTTPRouteRule \<Rightarrow> string" where
  "HTTPRouteRule_GetNamespace r = obj_GetNamespace (HTTPRoute_Object (hrr_HTTPRoute r))"

definition HTTPRouteRule_GetName :: "HTTPRouteRule \<Rightarrow> string" where
  "HTTPRouteRule_GetName r =
     namespacedSectionName (res_Name (hr_HTTPRoute (hrr_HTTPRoute r))) (hrr_Name r)"

definition ServicePort_GroupVersionKind :: "ServicePort \<Rightarrow> GroupVersionKind" where
  "ServicePort_GroupVersionKind p = \<lparr>gvk_Group = [], gvk_Version = [], gvk_Kind = ''ServicePort''\<rparr>"

definition ServicePort_GetURL :: "UrlFromObject \<Rightarrow> ServicePort \<Rightarrow> string" where
  "ServicePort_GetURL U p =
     namespacedSectionName (U (Service_Object (sp_Service p))) (sp_Name p)"

definition ServicePort_GetNamespace :: "ServicePort \<Rightarrow> string" where
  "ServicePort_GetNamespace p = obj_GetNamespace (Service_Object (sp_Service p))"

definition ServicePort_GetName :: "ServicePort \<Rightarrow> string" where
  "ServicePort_GetName p =
     namespacedSectionName (res_Name (svc_Service (sp_Service p))) (sp_Name p)"

section \<open>Controller: store and helpers of the \<^verbatim>\<open>lo\<close> library\<close>

text \<open>
  A value of the interface type \<^verbatim>\<open>RuntimeObject\<close> carries its dynamic type:
  the nil interface value, a pointer to one of the four typed resources that the
  topology builder asserts on, a policy (\<^verbatim>\<open>*machinery.BackendTLSPolicy\<close> or a policy of
  another type), a value of a type that implements \<^verbatim>\<open>machinery.Object\<close> without
  being a policy (such as \<^verbatim>\<open>*machinery.ReferenceGrant\<close>), or a value of any other type.
  The string argument names the dynamic type.
\<close>

datatype RuntimeObject =
    nil_RuntimeObject
  | GatewayClass_ptr Resource
  | Gateway_ptr Resource
  | HTTPRoute_ptr Resource
  | Service_ptr Resource
  | BackendTLSPolicy_obj BackendTLSPolicy
  | OtherPolicy_obj string Resource
  | Object_obj string Resource
  | Other_obj string Resource

text \<open>
  \<^verbatim>\<open>RuntimeObjects\<close> is \<^verbatim>\<open>map[string]RuntimeObject\<close>, modelled as an association list
  with one pair per key: \<^const>\<open>map_of\<close> reads a key, \<^const>\<open>AList.update\<close> assigns
  one. The order of the list stands for the order in which an iteration visits the Go
  map, which Go leaves unspecified; no statement below depends on it. The nil map and
  the empty map are both \<open>[]\<close> (they read alike). \<^verbatim>\<open>Store\<close> is
  \<^verbatim>\<open>map[schema.GroupKind]RuntimeObjects\<close>, only ever read by key: a function, with
  \<open>[]\<close> for an absent kind.
\<close>

type_synonym RuntimeObjects = "(string \<times> RuntimeObject) list"




text \<open>
  \<^verbatim>\<open>lo.SliceToMap\<close> (an alias of \<^verbatim>\<open>lo.Associate\<close>): starting from the empty map,
  assigns \<^verbatim>\<open>result[k] = v\<close> for the pair that \<^verbatim>\<open>transform\<close> returns on each item
  in turn. Every item assigns a key; a later item with the same key overwrites.
\<close>

definition SliceToMap :: "('a \<Rightarrow> 'k \<times> 'v) \<Rightarrow> 'a list \<Rightarrow> ('k \<times> 'v) list" where
  "SliceToMap transform collection =
     fold (\<lambda>t result. case transform t of (k, v) \<Rightarrow> AList.update k v result) collection []"

section \<open>Controller: conversion of documents\<close>

text \<open>
  An \<^verbatim>\<open>unstructured.Unstructured\<close> document: \<open>uns_UID\<close> is what \<^verbatim>\<open>GetUID()\<close>
  reads from it, \<open>uns_Object\<close> its content. A value of type \<^verbatim>\<open>any\<close> handed to
  \<^verbatim>\<open>Restructure\<close> is a \<^verbatim>\<open>*unstructured.Unstructured\<close> (possibly the nil pointer)
  or a value of another dynamic type, named by its \<^verbatim>\<open>%T\<close> rendering (the nil
  interface value renders as \<^verbatim>\<open><nil>\<close>).
\<close>

record 'doc Unstructured =
  uns_UID :: string
  uns_Object :: 'doc

datatype 'doc any = Unstructured_ptr "'doc Unstructured option" | OtherValue string

datatype 'e RestructureError = UnexpectedObjectType string | ConversionError 'e

datatype 'r outcome = Returns 'r | Panics

text \<open>
  \<^verbatim>\<open>runtime.DefaultUnstructuredConverter.FromUnstructured\<close> is external: the parameter
  \<open>conv\<close> gives, for a document content, the error or the typed object it fills in.
  A Go result \<^verbatim>\<open>(any, error)\<close> is a pair of options, \<open>None\<close> for \<^verbatim>\<open>nil\<close>.

  \<open>Restructure_convert\<close> is the part of \<^verbatim>\<open>Restructure\<close> after the type assertion
  (from \<^verbatim>\<open>o := *new(T)\<close> on), on a non-nil pointer. On the nil pointer
  \<^verbatim>\<open>UnstructuredContent()\<close> dereferences it and the call panics.
\<close>

definition Restructure_convert ::
  "('doc \<Rightarrow> 'e + 'T) \<Rightarrow> 'doc Unstructured \<Rightarrow> 'T option \<times> 'e RestructureError option" where
  "Restructure_convert conv unstructuredObj =
     (case conv (uns_Object unstructuredObj) of
        Inl err \<Rightarrow> (None, Some (ConversionError err))
      | Inr typed \<Rightarrow> (Some typed, None))"

definition Restructure ::
  "('doc \<Rightarrow> 'e + 'T) \<Rightarrow> 'doc any \<Rightarrow> ('T option \<times> 'e RestructureError option) outcome" where
  "Restructure conv obj =
     (case obj of
        OtherValue ty \<Rightarrow> Returns (None, Some (UnexpectedObjectType ty))
      | Unstructured_ptr None \<Rightarrow> Panics
      | Unstructured_ptr (Some unstructuredObj) \<Rightarrow> Returns (Restructure_convert conv unstructuredObj))"

section \<open>Controller: the state reconciler\<close>

record GroupVersionResource =
  gvr_Group :: string
  gvr_Version :: string
  gvr_Resource :: string

record RunnableBuilderOptions =
  opt_LabelSelector :: string
  opt_FieldSelector :: string

definition FilterResourcesByLabel :: "string \<Rightarrow> RunnableBuilderOptions \<Rightarrow> RunnableBuilderOptions" where
  "FilterResourcesByLabel selector opts = opts\<lparr>opt_LabelSelector := selector\<rparr>"

definition FilterResourcesByField :: "string \<Rightarrow> RunnableBuilderOptions \<Rightarrow> RunnableBuilderOptions" where
  "FilterResourcesByField selector opts = opts\<lparr>opt_FieldSelector := selector\<rparr>"

text \<open>
  The dynamic client is external. A call
  \<^verbatim>\<open>controller.client.Resource(resource).Namespace(namespace).List(ctx, options)\<close> is a
  request; the client answers with an error or with the listed documents.
\<close>

record ListRequest =
  req_resource :: GroupVersionResource
  req_namespace :: string
  req_LabelSelector :: string
  req_FieldSelector :: string

type_synonym ('e, 'doc) Client = "ListRequest \<Rightarrow> 'e + 'doc Unstructured list"

type_synonym ('e, 'doc) ListFunc = "('e, 'doc) Client \<Rightarrow> GroupKind \<times> RuntimeObjects"

text \<open>
  The controller's fields that the state reconciler touches. The reconciler holds a
  pointer to its controller: the functions below take and return the controller's
  state instead.
\<close>

record ('e, 'doc) Controller =
  ctl_client :: "('e, 'doc) Client"
  ctl_listFuncs :: "('e, 'doc) ListFunc list"

record ('e, 'doc) stateReconciler =
  sr_listFunc :: "('e, 'doc) ListFunc"

text \<open>
  \<^verbatim>\<open>kind[strings.LastIndex(kind, ".")+1:]\<close>: what follows the last dot, the whole
  string when there is none.
\<close>

definition after_last_dot :: "string \<Rightarrow> string" where
  "after_last_dot kind = rev (takeWhile (\<lambda>c. c \<noteq> CHR ''.'') (rev kind))"

text \<open>
  The closure \<^verbatim>\<open>listFunc\<close> that \<^verbatim>\<open>StateReconciler[T]\<close> builds. \<open>type_name\<close> is
  \<^verbatim>\<open>fmt.Sprintf("%T", new(T))\<close>, and \<open>box\<close> the interface value of a \<^verbatim>\<open>T\<close>: the
  assertion \<^verbatim>\<open>obj.(RuntimeObject)\<close> fails only on the nil \<^verbatim>\<open>any\<close>, because
  \<^verbatim>\<open>T\<close> is constrained by \<^verbatim>\<open>RuntimeObject\<close>. \<^verbatim>\<open>Restructure\<close> is called on
  \<^verbatim>\<open>&o\<close>, a non-nil pointer to the item.
\<close>

definition StateReconciler_transform ::
  "('doc \<Rightarrow> 'e + 'T) \<Rightarrow> ('T \<Rightarrow> RuntimeObject) \<Rightarrow> 'doc Unstructured \<Rightarrow> string \<times> RuntimeObject" where
  "StateReconciler_transform conv box item =
     (case Restructure_convert conv item of
        (obj, err) \<Rightarrow>
          if err \<noteq> None then ([], nil_RuntimeObject)
          else (case obj of
                  None \<Rightarrow> ([], nil_RuntimeObject)
                | Some runtimeObj \<Rightarrow> (uns_UID item, box runtimeObj)))"

definition StateReconciler_listFunc ::
  "('doc \<Rightarrow> 'e + 'T) \<Rightarrow> ('T \<Rightarrow> RuntimeObject) \<Rightarrow> string \<Rightarrow> GroupVersionResource \<Rightarrow> string
     \<Rightarrow> RunnableBuilderOptions \<Rightarrow> ('e, 'doc) ListFunc" where
  "StateReconciler_listFunc conv box type_name resource namespace opts client =
     (let gk = \<lparr>gk_Group = gvr_Group resource, gk_Kind = after_last_dot type_name\<rparr> in
      case client \<lparr>req_resource = resource, req_namespace = namespace,
                   req_LabelSelector = opt_LabelSelector opts,
                   req_FieldSelector = opt_FieldSelector opts\<rparr> of
        Inl err \<Rightarrow> (gk, [])
      | Inr items \<Rightarrow>
          if length items = 0 then (gk, [])
          else (gk, SliceToMap (StateReconciler_transform conv box) items))"

definition StateReconciler ::
  "('doc \<Rightarrow> 'e + 'T) \<Rightarrow> ('T \<Rightarrow> RuntimeObject) \<Rightarrow> string \<Rightarrow> GroupVersionResource \<Rightarrow> string
     \<Rightarrow> (RunnableBuilderOptions \<Rightarrow> RunnableBuilderOptions) list \<Rightarrow> ('e, 'doc) stateReconciler" where
  "StateReconciler conv box type_name resource namespace options =
     (let opts = fold (\<lambda>f opts. f opts) options \<lparr>opt_LabelSelector = [], opt_FieldSelector = []\<rparr> in
      \<lparr>sr_listFunc = StateReconciler_listFunc conv box type_name resource namespace opts\<rparr>)"

text \<open>
  \<^verbatim>\<open>r.controller.listFuncs = append(r.controller.listFuncs)\<close>: Go's \<^verbatim>\<open>append\<close>
  with the elements to add, of which this call passes none.
\<close>

definition go_append :: "'a list \<Rightarrow> 'a list \<Rightarrow> 'a list" where
  "go_append s elems = s @ elems"

definition stateReconciler_Run ::
  "('e, 'doc) stateReconciler \<Rightarrow> ('e, 'doc) Controller \<Rightarrow> ('e, 'doc) Controller" where
  "stateReconciler_Run r controller =
     controller\<lparr>ctl_listFuncs := go_append (ctl_listFuncs controller) []\<rparr>"

definition stateReconciler_HasSynced :: "('e, 'doc) stateReconciler \<Rightarrow> bool" where
  "stateReconciler_HasSynced r = True"

section \<open>Controller: the Gateway API topology builder\<close>























section \<open>Example values\<close>

text \<open>
  Concrete values at which the theorems below are instantiated. The files modelled
  here fix neither the format of a locator nor a merge strategy: \<open>example_UrlFromObject\<close> and
  \<open>source_wins\<close> are instances of the parameters \<open>U\<close> and \<open>D\<close>, and
  \<open>example_conv\<close> is an instance of the document converter. The resources follow the
  builders of the test data (\<^verbatim>\<open>BuildGateway\<close>, \<^verbatim>\<open>BuildHTTPRoute\<close>,
  \<^verbatim>\<open>BuildService\<close>).
\<close>

definition example_UrlFromObject :: UrlFromObject where
  "example_UrlFromObject obj =
     gvk_Kind (obj_GroupVersionKind obj) @ '':'' @ obj_GetNamespace obj @ ''/'' @ obj_GetName obj"

definition source_wins :: MergeStrategy where
  "source_wins source target = source"

definition example_gateway :: Resource where
  "example_gateway =
     \<lparr>res_TypeMeta = \<lparr>gvk_Group = ''gateway.networking.k8s.io'', gvk_Version = ''v1'',
                       gvk_Kind = ''Gateway''\<rparr>,
      res_Namespace = ''my-namespace'', res_Name = ''my-gateway''\<rparr>"

definition example_route :: Resource where
  "example_route =
     \<lparr>res_TypeMeta = \<lparr>gvk_Group = ''gateway.networking.k8s.io'', gvk_Version = ''v1'',
                       gvk_Kind = ''HTTPRoute''\<rparr>,
      res_Namespace = ''my-namespace'', res_Name = ''my-http-route''\<rparr>"

definition example_service :: Resource where
  "example_service =
     \<lparr>res_TypeMeta = \<lparr>gvk_Group = [], gvk_Version = ''v1'', gvk_Kind = ''Service''\<rparr>,
      res_Namespace = ''my-namespace'', res_Name = ''my-service''\<rparr>"

definition example_listener :: Listener where
  "example_listener =
     \<lparr>lis_Name = ''my-listener'',
      lis_Gateway = \<lparr>gw_Gateway = example_gateway, gw_attachedPolicies = []\<rparr>,
      lis_attachedPolicies = []\<rparr>"

definition example_rule :: HTTPRouteRule where
  "example_rule =
     \<lparr>hrr_HTTPRoute = \<lparr>hr_HTTPRoute = example_route, hr_attachedPolicies = []\<rparr>,
      hrr_Name = ''rule-1'', hrr_attachedPolicies = []\<rparr>"

definition example_port :: ServicePort where
  "example_port =
     \<lparr>sp_Name = ''http'',
      sp_Service = \<lparr>svc_Service = example_service, svc_attachedPolicies = []\<rparr>,
      sp_attachedPolicies = []\<rparr>"

text \<open>References, without section name, to the three parents.\<close>

definition gateway_ref :: LocalPolicyTargetReferenceWithSectionName where
  "gateway_ref =
     \<lparr>lsr_Group = ''gateway.networking.k8s.io'', lsr_Kind = ''Gateway'', lsr_Name = ''my-gateway'',
      lsr_SectionName = None, lsr_PolicyNamespace = ''my-namespace''\<rparr>"

definition route_ref :: LocalPolicyTargetReferenceWithSectionName where
  "route_ref =
     \<lparr>lsr_Group = ''gateway.networking.k8s.io'', lsr_Kind = ''HTTPRoute'',
      lsr_Name = ''my-http-route'', lsr_SectionName = None, lsr_PolicyNamespace = ''my-namespace''\<rparr>"

definition service_ref :: LocalPolicyTargetReferenceWithSectionName where
  "service_ref =
     \<lparr>lsr_Group = [], lsr_Kind = ''Service'', lsr_Name = ''my-service'',
      lsr_SectionName = None, lsr_PolicyNamespace = ''my-namespace''\<rparr>"

definition example_policy :: BackendTLSPolicy where
  "example_policy =
     \<lparr>btp_TypeMeta = \<lparr>gvk_Group = ''gateway.networking.k8s.io'', gvk_Version = ''v1alpha3'',
                       gvk_Kind = ''BackendTLSPolicy''\<rparr>,
      btp_Namespace = ''my-namespace'', btp_Name = ''my-tls-policy'',
      btp_TargetRefs = [\<lparr>tr_Group = [], tr_Kind = ''Service'', tr_Name = ''my-service'',
                         tr_SectionName = Some ''http''\<rparr>]\<rparr>"

text \<open>A policy of a kind other than \<^verbatim>\<open>BackendTLSPolicy\<close>.\<close>

definition other_policy :: Policy where
  "other_policy =
     OtherPolicy ''*v1beta3.AuthPolicy''
       \<lparr>res_TypeMeta = \<lparr>gvk_Group = ''kuadrant.io'', gvk_Version = ''v1beta3'',
                         gvk_Kind = ''AuthPolicy''\<rparr>,
        res_Namespace = ''my-namespace'', res_Name = ''my-auth-policy''\<rparr>"

text \<open>A converter that accepts one document only, and the two documents to try it on.\<close>

definition example_conv :: "string \<Rightarrow> string + Resource" where
  "example_conv doc = (if doc = ''gateway'' then Inr example_gateway else Inl ''cannot convert'')"

definition good_document :: "string Unstructured" where
  "good_document = \<lparr>uns_UID = ''uid-1'', uns_Object = ''gateway''\<rparr>"

definition bad_document :: "string Unstructured" where
  "bad_document = \<lparr>uns_UID = ''uid-2'', uns_Object = ''broken''\<rparr>"






section \<open>Helper lemmas\<close>

lemma GetName_without_section:
  "LocalPolicyTargetReferenceWithSectionName_GetName (t\<lparr>lsr_SectionName := None\<rparr>) = lsr_Name t"
  by (simp add: LocalPolicyTargetReferenceWithSectionName_GetName_def)

lemma GetName_with_section:
  "LocalPolicyTargetReferenceWithSectionName_GetName (t\<lparr>lsr_SectionName := Some s\<rparr>)
     = lsr_Name t @ ''#'' @ s"
  by (simp add: LocalPolicyTargetReferenceWithSectionName_GetName_def namespacedSectionName_def
      nameSectionNameURLSeparator_def)

text \<open>
  Through the \<^verbatim>\<open>Object\<close> interface, a reference with a section name differs from the
  same reference without one only in the name.
\<close>

lemma Object_with_section:
  "LocalPolicyTargetReferenceWithSectionName_Object (t\<lparr>lsr_SectionName := Some s\<rparr>)
     = (LocalPolicyTargetReferenceWithSectionName_Object (t\<lparr>lsr_SectionName := None\<rparr>))
         \<lparr>obj_GetName := obj_GetName
            (LocalPolicyTargetReferenceWithSectionName_Object (t\<lparr>lsr_SectionName := None\<rparr>))
            @ ''#'' @ s\<rparr>"
  by (simp add: LocalPolicyTargetReferenceWithSectionName_Object_def GetName_without_section
      GetName_with_section LocalPolicyTargetReferenceWithSectionName_GroupVersionKind_def
      LocalPolicyTargetReferenceWithSectionName_GetNamespace_def)

lemma GetURL_with_section:
  assumes "\<forall>obj x. U (obj\<lparr>obj_GetName := obj_GetName obj @ x\<rparr>) = U obj @ x"
  shows "LocalPolicyTargetReferenceWithSectionName_GetURL U (t\<lparr>lsr_SectionName := Some s\<rparr>)
     = LocalPolicyTargetReferenceWithSectionName_GetURL U (t\<lparr>lsr_SectionName := None\<rparr>) @ ''#'' @ s"
  unfolding LocalPolicyTargetReferenceWithSectionName_GetURL_def Object_with_section
  using assms by blast

lemma example_UrlFromObject_appends_name:
  "\<forall>obj x. example_UrlFromObject (obj\<lparr>obj_GetName := obj_GetName obj @ x\<rparr>)
             = example_UrlFromObject obj @ x"
  by (simp add: example_UrlFromObject_def)

text \<open>
  On the pointer to a listed item, which is what \<^verbatim>\<open>listFunc\<close> passes,
  \<^verbatim>\<open>Restructure\<close> returns what \<open>Restructure_convert\<close> computes.
\<close>

lemma Restructure_on_item:
  "Restructure conv (Unstructured_ptr (Some item)) = Returns (Restructure_convert conv item)"
  by (simp add: Restructure_def)

lemma after_last_dot_examples:
  "after_last_dot ''*v1.Gateway'' = ''Gateway''"
  "after_last_dot ''**v1.HTTPRoute'' = ''HTTPRoute''"
  "after_last_dot ''Gateway'' = ''Gateway''"
  by (simp_all add: after_last_dot_def)

text \<open>
  The target reference of the example policy, a Service with the section name of a
  port, has the locator of that port under the example locator function.
\<close>

lemma example_policy_targets_port:
  "map (LocalPolicyTargetReferenceWithSectionName_GetURL example_UrlFromObject)
       (BackendTLSPolicy_GetTargetRefs example_policy)
     = [ServicePort_GetURL example_UrlFromObject example_port]"
  by (simp add: BackendTLSPolicy_GetTargetRefs_def example_policy_def example_port_def
      example_service_def LocalPolicyTargetReferenceWithSectionName_GetURL_def
      LocalPolicyTargetReferenceWithSectionName_Object_def
      LocalPolicyTargetReferenceWithSectionName_GroupVersionKind_def
      LocalPolicyTargetReferenceWithSectionName_GetNamespace_def
      LocalPolicyTargetReferenceWithSectionName_GetName_def
      ServicePort_GetURL_def Service_Object_def Resource_Object_def
      namespacedSectionName_def nameSectionNameURLSeparator_def example_UrlFromObject_def)












section \<open>Locators of expanded sub-resources\<close>

text \<open>
  C1. The locator of a \<^verbatim>\<open>Listener\<close> is the locator of its \<^verbatim>\<open>Gateway\<close> followed by
  \<open>#\<close> and the listener's name; likewise an \<^verbatim>\<open>HTTPRouteRule\<close> with its
  \<^verbatim>\<open>HTTPRoute\<close> and a \<^verbatim>\<open>ServicePort\<close> with its \<^verbatim>\<open>Service\<close>. This holds whatever
  \<^verbatim>\<open>UrlFromObject\<close> computes.
\<close>

theorem expanded_node_locator:
  "Listener_GetURL U l = Gateway_GetURL U (lis_Gateway l) @ ''#'' @ lis_Name l
   \<and> HTTPRouteRule_GetURL U r = HTTPRoute_GetURL U (hrr_HTTPRoute r) @ ''#'' @ hrr_Name r
   \<and> ServicePort_GetURL U p = Service_GetURL U (sp_Service p) @ ''#'' @ sp_Name p"
  by (simp add: Listener_GetURL_def HTTPRouteRule_GetURL_def ServicePort_GetURL_def
      Gateway_GetURL_def HTTPRoute_GetURL_def Service_GetURL_def namespacedSectionName_def
      nameSectionNameURLSeparator_def)

section \<open>References with a section name\<close>

text \<open>
  C2. \<^verbatim>\<open>GetName\<close> of a \<^verbatim>\<open>LocalPolicyTargetReferenceWithSectionName\<close> is the target's
  name when \<^verbatim>\<open>SectionName\<close> is nil, and the target's name followed by \<open>#\<close> and the
  section name otherwise. \<^verbatim>\<open>GetURL\<close> hands the reference, with that name, to
  \<^verbatim>\<open>UrlFromObject\<close>. So for every \<^verbatim>\<open>UrlFromObject\<close> under which whatever is appended
  to an object's name is appended to its locator, the locator of a reference with section
  name \<open>s\<close> is the locator of the same reference without section name followed by \<open>#\<close>
  and \<open>s\<close>; and when the reference without section name locates a Gateway (an
  HTTPRoute, a Service), the reference with section name \<open>s\<close> has the locator of the
  Listener (HTTPRouteRule, ServicePort) named \<open>s\<close> of that parent, which is not the
  parent's locator.
\<close>

theorem section_name_reference:
  "LocalPolicyTargetReferenceWithSectionName_GetName (t\<lparr>lsr_SectionName := None\<rparr>) = lsr_Name t
   \<and> LocalPolicyTargetReferenceWithSectionName_GetName (t\<lparr>lsr_SectionName := Some s\<rparr>)
       = lsr_Name t @ ''#'' @ s
   \<and> ((\<forall>obj x. U (obj\<lparr>obj_GetName := obj_GetName obj @ x\<rparr>) = U obj @ x) \<longrightarrow>
        LocalPolicyTargetReferenceWithSectionName_GetURL U (t\<lparr>lsr_SectionName := Some s\<rparr>)
          = LocalPolicyTargetReferenceWithSectionName_GetURL U (t\<lparr>lsr_SectionName := None\<rparr>)
              @ ''#'' @ s
        \<and> (LocalPolicyTargetReferenceWithSectionName_GetURL U (t\<lparr>lsr_SectionName := None\<rparr>)
              = Gateway_GetURL U (lis_Gateway l) \<and> lis_Name l = s \<longrightarrow>
            LocalPolicyTargetReferenceWithSectionName_GetURL U (t\<lparr>lsr_SectionName := Some s\<rparr>)
              = Listener_GetURL U l
            \<and> LocalPolicyTargetReferenceWithSectionName_GetURL U (t\<lparr>lsr_SectionName := Some s\<rparr>)
              \<noteq> Gateway_GetURL U (lis_Gateway l))
        \<and> (LocalPolicyTargetReferenceWithSectionName_GetURL U (t\<lparr>lsr_SectionName := None\<rparr>)
              = HTTPRoute_GetURL U (hrr_HTTPRoute r) \<and> hrr_Name r = s \<longrightarrow>
            LocalPolicyTargetReferenceWithSectionName_GetURL U (t\<lparr>lsr_SectionName := Some s\<rparr>)
              = HTTPRouteRule_GetURL U r
            \<and> LocalPolicyTargetReferenceWithSectionName_GetURL U (t\<lparr>lsr_SectionName := Some s\<rparr>)
              \<noteq> HTTPRoute_GetURL U (hrr_HTTPRoute r))
        \<and> (LocalPolicyTargetReferenceWithSectionName_GetURL U (t\<lparr>lsr_SectionName := None\<rparr>)
              = Service_GetURL U (sp_Service p) \<and> sp_Name p = s \<longrightarrow>
            LocalPolicyTargetReferenceWithSectionName_GetURL U (t\<lparr>lsr_SectionName := Some s\<rparr>)
              = ServicePort_GetURL U p
            \<and> LocalPolicyTargetReferenceWithSectionName_GetURL U (t\<lparr>lsr_SectionName := Some s\<rparr>)
              \<noteq> Service_GetURL U (sp_Service p)))"
proof (intro conjI impI)
  show "LocalPolicyTargetReferenceWithSectionName_GetName (t\<lparr>lsr_SectionName := None\<rparr>) = lsr_Name t"
    by (rule GetName_without_section)
  show "LocalPolicyTargetReferenceWithSectionName_GetName (t\<lparr>lsr_SectionName := Some s\<rparr>)
       = lsr_Name t @ ''#'' @ s"
    by (rule GetName_with_section)
next
  assume "\<forall>obj x. U (obj\<lparr>obj_GetName := obj_GetName obj @ x\<rparr>) = U obj @ x"
  then show "LocalPolicyTargetReferenceWithSectionName_GetURL U (t\<lparr>lsr_SectionName := Some s\<rparr>)
          = LocalPolicyTargetReferenceWithSectionName_GetURL U (t\<lparr>lsr_SectionName := None\<rparr>)
              @ ''#'' @ s"
    by (rule GetURL_with_section)
next
  assume U: "\<forall>obj x. U (obj\<lparr>obj_GetName := obj_GetName obj @ x\<rparr>) = U obj @ x"
    and parent: "LocalPolicyTargetReferenceWithSectionName_GetURL U (t\<lparr>lsr_SectionName := None\<rparr>)
              = Gateway_GetURL U (lis_Gateway l) \<and> lis_Name l = s"
  note GetURL_with_section [OF U, where t = t and s = s]
  with parent show "LocalPolicyTargetReferenceWithSectionName_GetURL U (t\<lparr>lsr_SectionName := Some s\<rparr>)
              = Listener_GetURL U l"
    and "LocalPolicyTargetReferenceWithSectionName_GetURL U (t\<lparr>lsr_SectionName := Some s\<rparr>)
              \<noteq> Gateway_GetURL U (lis_Gateway l)"
    by (simp_all add: Listener_GetURL_def Gateway_GetURL_def namespacedSectionName_def
        nameSectionNameURLSeparator_def)
next
  assume U: "\<forall>obj x. U (obj\<lparr>obj_GetName := obj_GetName obj @ x\<rparr>) = U obj @ x"
    and parent: "LocalPolicyTargetReferenceWithSectionName_GetURL U (t\<lparr>lsr_SectionName := None\<rparr>)
              = HTTPRoute_GetURL U (hrr_HTTPRoute r) \<and> hrr_Name r = s"
  note GetURL_with_section [OF U, where t = t and s = s]
  with parent show "LocalPolicyTargetReferenceWithSectionName_GetURL U (t\<lparr>lsr_SectionName := Some s\<rparr>)
              = HTTPRouteRule_GetURL U r"
    and "LocalPolicyTargetReferenceWithSectionName_GetURL U (t\<lparr>lsr_SectionName := Some s\<rparr>)
              \<noteq> HTTPRoute_GetURL U (hrr_HTTPRoute r)"
    by (simp_all add: HTTPRouteRule_GetURL_def HTTPRoute_GetURL_def namespacedSectionName_def
        nameSectionNameURLSeparator_def)
next
  assume U: "\<forall>obj x. U (obj\<lparr>obj_GetName := obj_GetName obj @ x\<rparr>) = U obj @ x"
    and parent: "LocalPolicyTargetReferenceWithSectionName_GetURL U (t\<lparr>lsr_SectionName := None\<rparr>)
              = Service_GetURL U (sp_Service p) \<and> sp_Name p = s"
  note GetURL_with_section [OF U, where t = t and s = s]
  with parent show "LocalPolicyTargetReferenceWithSectionName_GetURL U (t\<lparr>lsr_SectionName := Some s\<rparr>)
              = ServicePort_GetURL U p"
    and "LocalPolicyTargetReferenceWithSectionName_GetURL U (t\<lparr>lsr_SectionName := Some s\<rparr>)
              \<noteq> Service_GetURL U (sp_Service p)"
    by (simp_all add: ServicePort_GetURL_def Service_GetURL_def namespacedSectionName_def
        nameSectionNameURLSeparator_def)
qed

text \<open>
  The theorem at the three example references: each, given the section name of the
  example sub-resource, has that sub-resource's locator and not the parent's.
\<close>

theorem section_name_reference_witness:
  "(LocalPolicyTargetReferenceWithSectionName_GetURL example_UrlFromObject
        (gateway_ref\<lparr>lsr_SectionName := Some ''my-listener''\<rparr>)
      = Listener_GetURL example_UrlFromObject example_listener
    \<and> LocalPolicyTargetReferenceWithSectionName_GetURL example_UrlFromObject
        (gateway_ref\<lparr>lsr_SectionName := Some ''my-listener''\<rparr>)
      \<noteq> Gateway_GetURL example_UrlFromObject (lis_Gateway example_listener))
   \<and> (LocalPolicyTargetReferenceWithSectionName_GetURL example_UrlFromObject
        (route_ref\<lparr>lsr_SectionName := Some ''rule-1''\<rparr>)
      = HTTPRouteRule_GetURL example_UrlFromObject example_rule
    \<and> LocalPolicyTargetReferenceWithSectionName_GetURL example_UrlFromObject
        (route_ref\<lparr>lsr_SectionName := Some ''rule-1''\<rparr>)
      \<noteq> HTTPRoute_GetURL example_UrlFromObject (hrr_HTTPRoute example_rule))
   \<and> (LocalPolicyTargetReferenceWithSectionName_GetURL example_UrlFromObject
        (service_ref\<lparr>lsr_SectionName := Some ''http''\<rparr>)
      = ServicePort_GetURL example_UrlFromObject example_port
    \<and> LocalPolicyTargetReferenceWithSectionName_GetURL example_UrlFromObject
        (service_ref\<lparr>lsr_SectionName := Some ''http''\<rparr>)
      \<noteq> Service_GetURL example_UrlFromObject (sp_Service example_port))"
proof -
  note U = example_UrlFromObject_appends_name
  have gw: "LocalPolicyTargetReferenceWithSectionName_GetURL example_UrlFromObject
        (gateway_ref\<lparr>lsr_SectionName := None\<rparr>)
      = Gateway_GetURL example_UrlFromObject (lis_Gateway example_listener)
      \<and> lis_Name example_listener = ''my-listener''"
    by (simp add: LocalPolicyTargetReferenceWithSectionName_GetURL_def
        LocalPolicyTargetReferenceWithSectionName_Object_def
        LocalPolicyTargetReferenceWithSectionName_GroupVersionKind_def
        LocalPolicyTargetReferenceWithSectionName_GetNamespace_def
        LocalPolicyTargetReferenceWithSectionName_GetName_def
        Gateway_GetURL_def Gateway_Object_def Resource_Object_def example_UrlFromObject_def
        gateway_ref_def example_listener_def example_gateway_def)
  have rt: "LocalPolicyTargetReferenceWithSectionName_GetURL example_UrlFromObject
        (route_ref\<lparr>lsr_SectionName := None\<rparr>)
      = HTTPRoute_GetURL example_UrlFromObject (hrr_HTTPRoute example_rule)
      \<and> hrr_Name example_rule = ''rule-1''"
    by (simp add: LocalPolicyTargetReferenceWithSectionName_GetURL_def
        LocalPolicyTargetReferenceWithSectionName_Object_def
        LocalPolicyTargetReferenceWithSectionName_GroupVersionKind_def
        LocalPolicyTargetReferenceWithSectionName_GetNamespace_def
        LocalPolicyTargetReferenceWithSectionName_GetName_def
        HTTPRoute_GetURL_def HTTPRoute_Object_def Resource_Object_def example_UrlFromObject_def
        route_ref_def example_rule_def example_route_def)
  have sv: "LocalPolicyTargetReferenceWithSectionName_GetURL example_UrlFromObject
        (service_ref\<lparr>lsr_SectionName := None\<rparr>)
      = Service_GetURL example_UrlFromObject (sp_Service example_port)
      \<and> sp_Name example_port = ''http''"
    by (simp add: LocalPolicyTargetReferenceWithSectionName_GetURL_def
        LocalPolicyTargetReferenceWithSectionName_Object_def
        LocalPolicyTargetReferenceWithSectionName_GroupVersionKind_def
        LocalPolicyTargetReferenceWithSectionName_GetNamespace_def
        LocalPolicyTargetReferenceWithSectionName_GetName_def
        Service_GetURL_def Service_Object_def Resource_Object_def example_UrlFromObject_def
        service_ref_def example_port_def example_service_def)
  from section_name_reference [where t = gateway_ref and s = "''my-listener''"
      and U = example_UrlFromObject and l = example_listener] U gw
  have 1: "LocalPolicyTargetReferenceWithSectionName_GetURL example_UrlFromObject
        (gateway_ref\<lparr>lsr_SectionName := Some ''my-listener''\<rparr>)
      = Listener_GetURL example_UrlFromObject example_listener
    \<and> LocalPolicyTargetReferenceWithSectionName_GetURL example_UrlFromObject
        (gateway_ref\<lparr>lsr_SectionName := Some ''my-listener''\<rparr>)
      \<noteq> Gateway_GetURL example_UrlFromObject (lis_Gateway example_listener)"
    by blast
  from section_name_reference [where t = route_ref and s = "''rule-1''"
      and U = example_UrlFromObject and r = example_rule] U rt
  have 2: "LocalPolicyTargetReferenceWithSectionName_GetURL example_UrlFromObject
        (route_ref\<lparr>lsr_SectionName := Some ''rule-1''\<rparr>)
      = HTTPRouteRule_GetURL example_UrlFromObject example_rule
    \<and> LocalPolicyTargetReferenceWithSectionName_GetURL example_UrlFromObject
        (route_ref\<lparr>lsr_SectionName := Some ''rule-1''\<rparr>)
      \<noteq> HTTPRoute_GetURL example_UrlFromObject (hrr_HTTPRoute example_rule)"
    by blast
  from section_name_reference [where t = service_ref and s = "''http''"
      and U = example_UrlFromObject and p = example_port] U sv
  have 3: "LocalPolicyTargetReferenceWithSectionName_GetURL example_UrlFromObject
        (service_ref\<lparr>lsr_SectionName := Some ''http''\<rparr>)
      = ServicePort_GetURL example_UrlFromObject example_port
    \<and> LocalPolicyTargetReferenceWithSectionName_GetURL example_UrlFromObject
        (service_ref\<lparr>lsr_SectionName := Some ''http''\<rparr>)
      \<noteq> Service_GetURL example_UrlFromObject (sp_Service example_port)"
    by blast
  from 1 2 3 show ?thesis by blast
qed

section \<open>Merging BackendTLSPolicies\<close>

text \<open>
  C3, as stated: for every policy \<open>other\<close>, \<^verbatim>\<open>p.Merge(other)\<close> is the kind's merge
  strategy applied to \<open>other\<close> and \<open>p\<close>. It fails when \<open>other\<close> is not a
  \<^verbatim>\<open>*BackendTLSPolicy\<close>: \<^verbatim>\<open>Merge\<close> then returns \<open>p\<close> without calling the
  strategy, here with a strategy that returns its first argument.
\<close>

theorem Merge_other_kind_counterexample:
  "BackendTLSPolicy_Merge source_wins example_policy other_policy
     \<noteq> (BackendTLSPolicy_GetMergeStrategy source_wins example_policy)
          other_policy (BackendTLSPolicy_ptr example_policy)"
  by (simp add: BackendTLSPolicy_Merge_def BackendTLSPolicy_GetMergeStrategy_def source_wins_def
      other_policy_def)

text \<open>
  C3, amended. When \<open>other\<close> is a \<^verbatim>\<open>*BackendTLSPolicy\<close>, \<^verbatim>\<open>p.Merge(other)\<close> is the
  merge strategy of \<open>other\<close> applied to \<open>other\<close> and \<open>p\<close>; every BackendTLSPolicy has the
  same merge strategy; when \<open>other\<close> is of any other type, \<^verbatim>\<open>p.Merge(other)\<close> is \<open>p\<close>.
\<close>

theorem Merge_by_kind:
  "BackendTLSPolicy_Merge D p (BackendTLSPolicy_ptr source)
     = (BackendTLSPolicy_GetMergeStrategy D source)
         (BackendTLSPolicy_ptr source) (BackendTLSPolicy_ptr p)
   \<and> BackendTLSPolicy_GetMergeStrategy D p = BackendTLSPolicy_GetMergeStrategy D source
   \<and> ((\<forall>q. other \<noteq> BackendTLSPolicy_ptr q) \<longrightarrow>
        BackendTLSPolicy_Merge D p other = BackendTLSPolicy_ptr p)"
  by (auto simp: BackendTLSPolicy_Merge_def BackendTLSPolicy_GetMergeStrategy_def
      split: Policy.splits)

theorem Merge_by_kind_witness:
  "(\<forall>q. other_policy \<noteq> BackendTLSPolicy_ptr q)
   \<and> BackendTLSPolicy_Merge source_wins example_policy other_policy
       = BackendTLSPolicy_ptr example_policy"
proof -
  have h: "\<forall>q. other_policy \<noteq> BackendTLSPolicy_ptr q"
    by (simp add: other_policy_def)
  with Merge_by_kind [where other = other_policy and D = source_wins and p = example_policy]
  show ?thesis by blast
qed

section \<open>Listing by a state reconciler\<close>

text \<open>
  C4. The claim is that a document that fails conversion leaves no entry in the map
  that \<^verbatim>\<open>listFunc\<close> returns. The callback returns the pair \<^verbatim>\<open>("", nil)\<close> for such
  a document, and \<^verbatim>\<open>lo.SliceToMap\<close> stores every pair: when the only listed document
  fails conversion, the returned map has one entry, the nil object under the empty key;
  and after a document that converts, the failed one adds that entry to the map.
\<close>

theorem listFunc_failed_conversion_entry:
  "StateReconciler_listFunc (\<lambda>doc. Inl err) box type_name resource namespace opts
      (\<lambda>request. Inr [item])
     = (\<lparr>gk_Group = gvr_Group resource, gk_Kind = after_last_dot type_name\<rparr>,
        [([], nil_RuntimeObject)])
   \<and> StateReconciler_listFunc example_conv Gateway_ptr type_name resource namespace opts
      (\<lambda>request. Inr [good_document, bad_document])
     = (\<lparr>gk_Group = gvr_Group resource, gk_Kind = after_last_dot type_name\<rparr>,
        [(''uid-1'', Gateway_ptr example_gateway), ([], nil_RuntimeObject)])"
  by (simp add: StateReconciler_listFunc_def SliceToMap_def StateReconciler_transform_def
      Restructure_convert_def example_conv_def good_document_def bad_document_def)

section \<open>Running a state reconciler\<close>

text \<open>
  C5. The claim is that after \<^verbatim>\<open>Run\<close> the controller's list functions include the
  reconciler's. \<^verbatim>\<open>Run\<close> appends nothing: it leaves the controller as it was, and a
  controller without list functions has none afterwards.
\<close>

theorem Run_registers_nothing:
  "stateReconciler_Run r controller = controller
   \<and> ctl_listFuncs (stateReconciler_Run r \<lparr>ctl_client = client, ctl_listFuncs = []\<rparr>) = []"
  by (simp add: stateReconciler_Run_def go_append_def)

text \<open>
  C10. \<^verbatim>\<open>HasSynced\<close> is true of every state reconciler, whatever the controller's
  state, and in particular of one that \<^verbatim>\<open>StateReconciler\<close> has just built.
\<close>

theorem HasSynced_always:
  "stateReconciler_HasSynced r
   \<and> stateReconciler_HasSynced (StateReconciler conv box type_name resource namespace options)"
  by (simp add: stateReconciler_HasSynced_def)

section \<open>Restructure\<close>

text \<open>
  C6. \<^verbatim>\<open>Restructure\<close> returns the nil value and an error when its argument is not a
  \<^verbatim>\<open>*unstructured.Unstructured\<close>, and the nil value and the converter's error when the
  conversion fails. It returns a typed object only with a nil error, and then the
  argument is a document that the converter turns into that object. It never returns
  a value together with an error. A document that converts is returned converted.
\<close>

theorem Restructure_errors:
  "((\<forall>ptr. obj \<noteq> Unstructured_ptr ptr) \<longrightarrow>
      (\<exists>err. Restructure conv obj = Returns (None, Some err)))
   \<and> (conv (uns_Object u) = Inl e \<longrightarrow>
        Restructure conv (Unstructured_ptr (Some u)) = Returns (None, Some (ConversionError e)))
   \<and> (Restructure conv obj' = Returns (Some w, err') \<longrightarrow>
        err' = None \<and> (\<exists>u'. obj' = Unstructured_ptr (Some u') \<and> conv (uns_Object u') = Inr w))
   \<and> (Restructure conv obj'' = Returns (val, Some err'') \<longrightarrow> val = None)
   \<and> (conv (uns_Object u2) = Inr v \<longrightarrow>
        Restructure conv (Unstructured_ptr (Some u2)) = Returns (Some v, None))"
  by (auto simp: Restructure_def Restructure_convert_def
      split: any.splits option.splits sum.splits)

theorem Restructure_errors_witness:
  "(\<exists>err. Restructure example_conv (OtherValue ''*v1.Gateway'') = Returns (None, Some err))
   \<and> Restructure example_conv (Unstructured_ptr (Some bad_document))
       = Returns (None, Some (ConversionError ''cannot convert''))
   \<and> Restructure example_conv (Unstructured_ptr (Some good_document))
       = Returns (Some example_gateway, None)"
proof -
  have other: "\<forall>ptr. (OtherValue ''*v1.Gateway'' :: string any) \<noteq> Unstructured_ptr ptr"
    by simp
  have bad: "example_conv (uns_Object bad_document) = Inl ''cannot convert''"
    by (simp add: example_conv_def bad_document_def)
  have good: "example_conv (uns_Object good_document) = Inr example_gateway"
    by (simp add: example_conv_def good_document_def)
  from Restructure_errors [where conv = example_conv and obj = "OtherValue ''*v1.Gateway''"
      and u = bad_document and e = "''cannot convert''" and ?u2.0 = good_document
      and v = example_gateway] other bad good
  show ?thesis by blast
qed

section \<open>The topology builder\<close>




section \<open>Namespaces and kinds of target references\<close>

text \<open>
  C8. \<^verbatim>\<open>GetNamespace\<close> of a \<^verbatim>\<open>NamespacedPolicyTargetReference\<close> is the policy's
  namespace when the \<^verbatim>\<open>Namespace\<close> field is nil and the namespace the field points to
  otherwise; \<^verbatim>\<open>GetNamespace\<close> of a \<^verbatim>\<open>LocalPolicyTargetReference\<close> is the policy's
  namespace.
\<close>

theorem GetNamespace_of_reference:
  "NamespacedPolicyTargetReference_GetNamespace (t\<lparr>npr_Namespace := None\<rparr>) = npr_PolicyNamespace t
   \<and> NamespacedPolicyTargetReference_GetNamespace (t\<lparr>npr_Namespace := Some ns\<rparr>) = ns
   \<and> LocalPolicyTargetReference_GetNamespace l = lpr_PolicyNamespace l"
  by (simp add: NamespacedPolicyTargetReference_GetNamespace_def Deref_def
      LocalPolicyTargetReference_GetNamespace_def)

text \<open>
  C9. For each of the three reference types, \<^verbatim>\<open>GroupVersionKind()\<close> after a call of
  \<^verbatim>\<open>SetGroupVersionKind(gvk)\<close> is what it was before, and so is the whole reference,
  although the callee's copy does take the group and kind of \<open>gvk\<close>.
\<close>

theorem SetGroupVersionKind_no_effect:
  "NamespacedPolicyTargetReference_GroupVersionKind
      (NamespacedPolicyTargetReference_SetGroupVersionKind n gvk)
     = NamespacedPolicyTargetReference_GroupVersionKind n
   \<and> LocalPolicyTargetReference_GroupVersionKind
      (LocalPolicyTargetReference_SetGroupVersionKind l gvk)
     = LocalPolicyTargetReference_GroupVersionKind l
   \<and> LocalPolicyTargetReferenceWithSectionName_GroupVersionKind
      (LocalPolicyTargetReferenceWithSectionName_SetGroupVersionKind s gvk)
     = LocalPolicyTargetReferenceWithSectionName_GroupVersionKind s
   \<and> NamespacedPolicyTargetReference_SetGroupVersionKind n gvk = n
   \<and> LocalPolicyTargetReference_SetGroupVersionKind l gvk = l
   \<and> LocalPolicyTargetReferenceWithSectionName_SetGroupVersionKind s gvk = s
   \<and> NamespacedPolicyTargetReference_GroupVersionKind
      (NamespacedPolicyTargetReference_SetGroupVersionKind_body n gvk)
     = \<lparr>gvk_Group = gvk_Group gvk, gvk_Version = [], gvk_Kind = gvk_Kind gvk\<rparr>"
  by (simp add: NamespacedPolicyTargetReference_SetGroupVersionKind_def
      LocalPolicyTargetReference_SetGroupVersionKind_def
      LocalPolicyTargetReferenceWithSectionName_SetGroupVersionKind_def
      NamespacedPolicyTargetReference_SetGroupVersionKind_body_def
      NamespacedPolicyTargetReference_GroupVersionKind_def)

end
